theory Spec2Isabelle
  imports Main
begin

section \<open>Data model (db/schema.ts)\<close>

text \<open>
  A row of the \<open>products\<close> table, which is also the in-memory \<open>Product\<close> object the
  services mutate. The integer columns are \<open>int\<close>; the column \<open>type\<close> is a text column,
  so at run time it holds an arbitrary string, of which the static type \<open>ProductType\<close> names
  three. The three date columns are nullable timestamps in milliseconds: \<open>None\<close> is
  \<open>null\<close>, \<open>Some t\<close> is the \<open>Date\<close> whose \<open>getTime()\<close> is \<open>t\<close>. In memory every
  number is an IEEE double; the fields hold the integers among them, and the arithmetic
  the services do on them rounds as \<open>toDouble\<close> below says.
\<close>

record Product =
  id' :: int
  leadTime :: int
  available :: int
  type :: string
  name :: string
  expiryDate :: "int option"
  seasonStartDate :: "int option"
  seasonEndDate :: "int option"

definition PRODUCT_TYPE_NORMAL :: string where
  "PRODUCT_TYPE_NORMAL = ''NORMAL''"

definition PRODUCT_TYPE_SEASONAL :: string where
  "PRODUCT_TYPE_SEASONAL = ''SEASONAL''"

definition PRODUCT_TYPE_EXPIRABLE :: string where
  "PRODUCT_TYPE_EXPIRABLE = ''EXPIRABLE''"

text \<open>
  \<open>OrderWithProducts\<close> (repositories/order.repository.ts): the order's id and one entry
  per association row, holding the product row it resolves to (\<open>None\<close> when the relation
  finds no row).
\<close>

record OrderWithProducts =
  order_id :: int
  order_products :: "Product option list"

section \<open>JavaScript numbers and dates\<close>

text \<open>
  A JavaScript number is a double. The sum, difference or product of two integer-valued
  doubles is the exact integer result rounded to the nearest double, ties to the even
  significand: an integer of at most 53 bits is kept, a longer one keeps its leading 53
  bits, rounded. (Results beyond the largest double, about \<open>2 ^ 1024\<close>, would be infinite;
  the only place one could arise here is the restock date, where \<open>TimeClip\<close> treats every
  value beyond its range alike.)
\<close>

fun bit_length :: "nat \<Rightarrow> nat" where
  "bit_length n = (if n = 0 then 0 else Suc (bit_length (n div 2)))"

declare bit_length.simps [simp del]

definition toDouble :: "int \<Rightarrow> int" where
  "toDouble n =
     (let m = nat \<bar>n\<bar>; b = bit_length m
      in if b \<le> 53 then n
         else let u = 2 ^ (b - 53); q = m div u; r = m mod u;
                  q1 = (if u < 2 * r \<or> (2 * r = u \<and> odd q) then q + 1 else q)
              in sgn n * int (q1 * u))"

text \<open>
  \<open>new Date(value)\<close> clips its argument: a time value further than 8.64e15 milliseconds
  from the epoch gives an invalid \<open>Date\<close>, whose time value is \<open>NaN\<close> (here \<open>None\<close>); every
  comparison with it is false.
\<close>

definition TimeClip :: "int \<Rightarrow> int option" where
  "TimeClip t = (if \<bar>t\<bar> \<le> 8640000000000000 then Some t else None)"

text \<open>
  \<open>new Date()\<close>, the current date, is always valid: its time value lies in that range.
\<close>

typedef time_value = "{t :: int. \<bar>t\<bar> \<le> 8640000000000000}"
  morphisms getTime Date_at
  by (rule exI [of _ 0]) simp

section \<open>The world the services act on\<close>

text \<open>
  What the code can observe or change outside its arguments: the three tables, the calls
  received by the database (\<open>UPDATE products\<close>) and by the notification port, in the order
  they are made, and the system clock. The clock is a sequence of readings; \<open>ticks\<close> counts
  the readings taken so far, so the next \<open>new Date()\<close> returns \<open>clock ticks\<close>. The logger
  is left out: its calls return nothing and change nothing the services read.
\<close>

datatype event =
    UpdateProduct Product
  | SendDelayNotification int string
  | SendOutOfStockNotification string
  | SendExpirationNotification string "int option"

record world =
  products :: "int \<Rightarrow> Product option"
  orders :: "int list"
  ordersToProducts :: "(int \<times> int) list"
  trace :: "event list"
  clock :: "nat \<Rightarrow> time_value"
  ticks :: nat

datatype error =
    OrderNotFound int
  | NoHandler string
  | TypeError

definition emit :: "event \<Rightarrow> world \<Rightarrow> world" where
  "emit e w = w\<lparr>trace := trace w @ [e]\<rparr>"

text \<open>\<open>new Date()\<close>: the next reading of the clock, in milliseconds.\<close>

definition new_Date :: "world \<Rightarrow> int \<times> world" where
  "new_Date w = (getTime (clock w (ticks w)), w\<lparr>ticks := Suc (ticks w)\<rparr>)"

text \<open>
  The relational operators of JavaScript on a \<open>Date\<close> or \<open>null\<close> compare numbers: a
  \<open>Date\<close> counts as its time value and \<open>null\<close> as \<open>0\<close>. The non-null assertion \<open>!\<close> of
  the source is erased at run time.
\<close>

definition ToNumber :: "int option \<Rightarrow> int" where
  "ToNumber d = (case d of None \<Rightarrow> 0 | Some t \<Rightarrow> t)"

section \<open>ProductRepository (repositories/product.repository.ts)\<close>

text \<open>
  \<open>updateProduct\<close> issues \<open>UPDATE products SET <every column> WHERE id = product.id\<close>: the
  row with that id, if there is one, becomes the object's fields. The two convenience
  operations assign the field of the in-memory object, then update; they return the
  mutated object. \<open>product.available -= 1\<close> is a subtraction of doubles.
\<close>

definition updateProduct :: "Product \<Rightarrow> world \<Rightarrow> world" where
  "updateProduct product w =
     emit (UpdateProduct product)
       (w\<lparr>products :=
            (case products w (id' product) of
               None \<Rightarrow> products w
             | Some row \<Rightarrow> (products w)(id' product \<mapsto> product))\<rparr>)"

definition decrementStock :: "Product \<Rightarrow> world \<Rightarrow> Product \<times> world" where
  "decrementStock product w =
     (let product1 = product\<lparr>available := toDouble (available product - 1)\<rparr>
      in (product1, updateProduct product1 w))"

definition setOutOfStock :: "Product \<Rightarrow> world \<Rightarrow> Product \<times> world" where
  "setOutOfStock product w =
     (let product1 = product\<lparr>available := 0\<rparr>
      in (product1, updateProduct product1 w))"

section \<open>OrderRepository (repositories/order.repository.ts)\<close>

definition findOrderWithProducts :: "int \<Rightarrow> world \<Rightarrow> OrderWithProducts option" where
  "findOrderWithProducts orderId w =
     (if orderId \<in> set (orders w)
      then Some \<lparr>order_id = orderId,
                 order_products =
                   map (\<lambda>(oid, productId). products w productId)
                     (filter (\<lambda>(oid, productId). oid = orderId) (ordersToProducts w))\<rparr>
      else None)"

section \<open>ProductService (services/impl/product.service.ts)\<close>

definition MILLISECONDS_PER_DAY :: int where
  "MILLISECONDS_PER_DAY = 1000 * 60 * 60 * 24"

definition notifyDelay :: "int \<Rightarrow> Product \<Rightarrow> world \<Rightarrow> Product \<times> world" where
  "notifyDelay leadTime0 p w =
     (let p1 = p\<lparr>leadTime := leadTime0\<rparr>;
          w1 = updateProduct p1 w
      in (p1, emit (SendDelayNotification leadTime0 (name p1)) w1))"

definition handleSeasonalProduct :: "Product \<Rightarrow> world \<Rightarrow> Product \<times> world" where
  "handleSeasonalProduct p w =
     (let (currentDate, w1) = new_Date w;
          restockDate =
            TimeClip (toDouble (currentDate + toDouble (leadTime p * MILLISECONDS_PER_DAY)))
      in if (case restockDate of
               None \<Rightarrow> False
             | Some t \<Rightarrow> t > ToNumber (seasonEndDate p))
         then setOutOfStock p (emit (SendOutOfStockNotification (name p)) w1)
         else if ToNumber (seasonStartDate p) > currentDate
         then (p, updateProduct p (emit (SendOutOfStockNotification (name p)) w1))
         else notifyDelay (leadTime p) p w1)"

definition handleExpiredProduct :: "Product \<Rightarrow> world \<Rightarrow> Product \<times> world" where
  "handleExpiredProduct p w =
     (let (currentDate, w1) = new_Date w
      in if available p > 0 \<and> ToNumber (expiryDate p) > currentDate
         then decrementStock p w1
         else setOutOfStock p
                (emit (SendExpirationNotification (name p) (expiryDate p)) w1))"

definition processNormalProduct :: "Product \<Rightarrow> world \<Rightarrow> Product \<times> world" where
  "processNormalProduct product w =
     (if available product > 0 then decrementStock product w
      else if leadTime product > 0 then notifyDelay (leadTime product) product w
      else (product, w))"

definition processSeasonalProduct :: "Product \<Rightarrow> world \<Rightarrow> Product \<times> world" where
  "processSeasonalProduct product w =
     (let (currentDate, w1) = new_Date w;
          inSeason = (currentDate > ToNumber (seasonStartDate product)
                      \<and> currentDate < ToNumber (seasonEndDate product))
      in if inSeason \<and> available product > 0
         then decrementStock product w1
         else handleSeasonalProduct product w1)"

definition processExpirableProduct :: "Product \<Rightarrow> world \<Rightarrow> Product \<times> world" where
  "processExpirableProduct product w =
     (let (currentDate, w1) = new_Date w;
          notExpired = (ToNumber (expiryDate product) > currentDate)
      in if available product > 0 \<and> notExpired
         then decrementStock product w1
         else handleExpiredProduct product w1)"

text \<open>
  \<open>productHandlers\<close> is an object literal with three own properties, and
  \<open>this.productHandlers[product.type]\<close> is a property read: a key that is not an own
  property is looked up on \<open>Object.prototype\<close>, whose members are listed here, and only a
  key found on neither yields \<open>undefined\<close>.
\<close>

datatype handler = Normal | Seasonal | Expirable

datatype property = Own handler | Inherited string | Undefined

definition Object_prototype :: "string list" where
  "Object_prototype =
     [''constructor'', ''toString'', ''toLocaleString'', ''valueOf'', ''hasOwnProperty'',
      ''isPrototypeOf'', ''propertyIsEnumerable'', ''__proto__'', ''__defineGetter__'',
      ''__defineSetter__'', ''__lookupGetter__'', ''__lookupSetter__'']"

definition productHandlers :: "string \<Rightarrow> property" where
  "productHandlers key =
     (if key = PRODUCT_TYPE_NORMAL then Own Normal
      else if key = PRODUCT_TYPE_SEASONAL then Own Seasonal
      else if key = PRODUCT_TYPE_EXPIRABLE then Own Expirable
      else if key \<in> set Object_prototype then Inherited key
      else Undefined)"

text \<open>
  \<open>handler(product)\<close> for a member of \<open>Object.prototype\<close>, called as a plain function
  (its \<open>this\<close> is \<open>undefined\<close>): \<open>constructor\<close> returns its argument and \<open>toString\<close>
  returns a string, so the call completes and nothing is touched; \<open>__proto__\<close> is an
  object, not a function, and every other member converts \<open>this\<close> to an object first: a
  \<open>TypeError\<close>.
\<close>

definition call_inherited :: "string \<Rightarrow> Product \<Rightarrow> world \<Rightarrow> (error + Product) \<times> world" where
  "call_inherited key product w =
     (if key = ''constructor'' \<or> key = ''toString'' then (Inr product, w)
      else (Inl TypeError, w))"

definition call_handler :: "handler \<Rightarrow> Product \<Rightarrow> world \<Rightarrow> Product \<times> world" where
  "call_handler h product w =
     (case h of
        Normal \<Rightarrow> processNormalProduct product w
      | Seasonal \<Rightarrow> processSeasonalProduct product w
      | Expirable \<Rightarrow> processExpirableProduct product w)"

text \<open>
  \<open>processProduct\<close> returns the object as the call leaves it, or the error thrown, and
  the world after the call in both cases.
\<close>

definition processProduct :: "Product \<Rightarrow> world \<Rightarrow> (error + Product) \<times> world" where
  "processProduct product w =
     (case productHandlers (type product) of
        Undefined \<Rightarrow> (Inl (NoHandler (type product)), w)
      | Inherited key \<Rightarrow> call_inherited key product w
      | Own h \<Rightarrow> (let (product1, w1) = call_handler h product w in (Inr product1, w1)))"

section \<open>OrderService (services/impl/order.service.ts)\<close>

text \<open>
  The \<open>for\<close> loop over \<open>order.products\<close>: reading \<open>product.id\<close> of a \<open>null\<close> product is
  a \<open>TypeError\<close>; the first error ends the loop.
\<close>

fun processProducts :: "Product option list \<Rightarrow> world \<Rightarrow> (error + unit) \<times> world" where
  "processProducts [] w = (Inr (), w)"
| "processProducts (None # rest) w = (Inl TypeError, w)"
| "processProducts (Some product # rest) w =
     (case processProduct product w of
        (Inl e, w1) \<Rightarrow> (Inl e, w1)
      | (Inr product1, w1) \<Rightarrow> processProducts rest w1)"

definition processOrder :: "int \<Rightarrow> world \<Rightarrow> (error + int) \<times> world" where
  "processOrder orderId w =
     (case findOrderWithProducts orderId w of
        None \<Rightarrow> (Inl (OrderNotFound orderId), w)
      | Some ord \<Rightarrow>
          (case processProducts (order_products ord) w of
             (Inl e, w1) \<Rightarrow> (Inl e, w1)
           | (Inr u, w1) \<Rightarrow> (Inr (order_id ord), w1)))"

section \<open>Observations and sample data\<close>

text \<open>
  The events of a trace are database writes or notifications; \<open>new_events\<close> are the
  events a call appended to the trace.
\<close>

definition is_write :: "event \<Rightarrow> bool" where
  "is_write e = (case e of UpdateProduct q \<Rightarrow> True | _ \<Rightarrow> False)"

definition is_notification :: "event \<Rightarrow> bool" where
  "is_notification e = (case e of UpdateProduct q \<Rightarrow> False | _ \<Rightarrow> True)"

definition new_events :: "world \<Rightarrow> world \<Rightarrow> event list" where
  "new_events w w1 = drop (length (trace w)) (trace w1)"

definition known_type :: "string \<Rightarrow> bool" where
  "known_type t = (t = PRODUCT_TYPE_NORMAL \<or> t = PRODUCT_TYPE_SEASONAL \<or> t = PRODUCT_TYPE_EXPIRABLE)"

text \<open>
  A call respects the write and notification budget when the trace it leaves extends the
  trace it found by at most one write and at most one notification.
\<close>

definition one_write_one_notification :: "world \<Rightarrow> world \<Rightarrow> bool" where
  "one_write_one_notification w w1 =
     (trace w1 = trace w @ new_events w w1
      \<and> length (filter is_write (new_events w w1)) \<le> 1
      \<and> length (filter is_notification (new_events w w1)) \<le> 1)"

text \<open>
  The frame of a handler: the object it returns is its argument with at most \<open>available\<close>
  changed, to the same value, to 0, or from a positive value by \<open>available -= 1\<close>; and the
  \<open>products\<close> table is either untouched, the object being unchanged too, or holds the
  returned object in the row of its id, if there is such a row.
\<close>

definition frame :: "Product \<Rightarrow> world \<Rightarrow> Product \<times> world \<Rightarrow> bool" where
  "frame p w r =
     (fst r = p\<lparr>available := available (fst r)\<rparr>
      \<and> (available (fst r) = available p \<or> available (fst r) = 0
          \<or> (0 < available p \<and> available (fst r) = toDouble (available p - 1)))
      \<and> (products (snd r) = products w \<and> fst r = p
          \<or> products (snd r) =
              (case products w (id' p) of
                 None \<Rightarrow> products w
               | Some row \<Rightarrow> (products w)(id' p \<mapsto> fst r))))"

text \<open>
  Sample products, taken from the service's test suite (services/impl/product.service.spec.ts):
  the tests write the dates relative to the current time, here the instant \<open>NOW\<close>, and
  insert the product before they process it. The sample clock advances by one millisecond
  at each of its first thousand readings. The last two products hold a stock beyond
  \<open>2 ^ 53\<close>, which the integer column stores and a double represents.
\<close>

definition NOW :: int where
  "NOW = 1700000000000"

definition DAY_MS :: int where
  "DAY_MS = 24 * 60 * 60 * 1000"

definition database_with :: "Product \<Rightarrow> world" where
  "database_with p =
     \<lparr>products = [id' p \<mapsto> p], orders = [1, 2], ordersToProducts = [(1, id' p)],
      trace = [], clock = (\<lambda>n. Date_at (NOW + int (min n 1000))), ticks = 0\<rparr>"

definition usb_cable :: Product where
  "usb_cable = \<lparr>id' = 1, leadTime = 15, available = 10, type = PRODUCT_TYPE_NORMAL,
     name = ''USB Cable'', expiryDate = None, seasonStartDate = None, seasonEndDate = None\<rparr>"

definition usb_dongle :: Product where
  "usb_dongle = \<lparr>id' = 1, leadTime = 10, available = 0, type = PRODUCT_TYPE_NORMAL,
     name = ''USB Dongle'', expiryDate = None, seasonStartDate = None, seasonEndDate = None\<rparr>"

definition butter :: Product where
  "butter = \<lparr>id' = 1, leadTime = 15, available = 30, type = PRODUCT_TYPE_EXPIRABLE,
     name = ''Butter'', expiryDate = Some (NOW + 26 * DAY_MS),
     seasonStartDate = None, seasonEndDate = None\<rparr>"

definition milk :: Product where
  "milk = \<lparr>id' = 1, leadTime = 90, available = 6, type = PRODUCT_TYPE_EXPIRABLE,
     name = ''Milk'', expiryDate = Some (NOW - 2 * DAY_MS),
     seasonStartDate = None, seasonEndDate = None\<rparr>"

definition strawberries :: Product where
  "strawberries = \<lparr>id' = 1, leadTime = 60, available = 0, type = PRODUCT_TYPE_SEASONAL,
     name = ''Strawberries'', expiryDate = None,
     seasonStartDate = Some (NOW - 10 * DAY_MS), seasonEndDate = Some (NOW + 20 * DAY_MS)\<rparr>"

definition pumpkin :: Product where
  "pumpkin = \<lparr>id' = 1, leadTime = 15, available = 10, type = PRODUCT_TYPE_SEASONAL,
     name = ''Pumpkin'', expiryDate = None,
     seasonStartDate = Some (NOW - 60 * DAY_MS), seasonEndDate = Some (NOW - 5 * DAY_MS)\<rparr>"

definition late_melon :: Product where
  "late_melon = \<lparr>id' = 1, leadTime = 60, available = 5, type = PRODUCT_TYPE_SEASONAL,
     name = ''Melon'', expiryDate = None,
     seasonStartDate = Some (NOW - 10 * DAY_MS), seasonEndDate = Some (NOW + 20 * DAY_MS)\<rparr>"



definition hoard :: Product where
  "hoard = \<lparr>id' = 1, leadTime = 15, available = 10000000000000000,
     type = PRODUCT_TYPE_EXPIRABLE, name = ''Salt'', expiryDate = Some (NOW + 26 * DAY_MS),
     seasonStartDate = None, seasonEndDate = None\<rparr>"

definition bulk :: Product where
  "bulk = \<lparr>id' = 1, leadTime = 15, available = 9007199254740994,
     type = PRODUCT_TYPE_NORMAL, name = ''Rice'', expiryDate = None,
     seasonStartDate = None, seasonEndDate = None\<rparr>"

definition mistyped :: Product where
  "mistyped = \<lparr>id' = 1, leadTime = 15, available = 10, type = ''toString'',
     name = ''USB Cable'', expiryDate = None, seasonStartDate = None, seasonEndDate = None\<rparr>"

section \<open>Properties\<close>

lemmas fixture_defs = database_with_def NOW_def DAY_MS_def
  PRODUCT_TYPE_NORMAL_def PRODUCT_TYPE_SEASONAL_def PRODUCT_TYPE_EXPIRABLE_def
  MILLISECONDS_PER_DAY_def ToNumber_def Date_at_inverse

lemmas number_defs = toDouble_def TimeClip_def bit_length.simps

subsection \<open>Rounding to a double\<close>

lemma bit_length_le: "n < 2 ^ k \<Longrightarrow> bit_length n \<le> k"
proof (induction k arbitrary: n)
  case 0
  then show ?case by (simp add: bit_length.simps)
next
  case (Suc k)
  have "n div 2 < 2 ^ k" using Suc.prems by simp
  from Suc.IH [OF this] show ?case by (subst bit_length.simps) simp
qed

lemma bit_length_upper: "n < 2 ^ bit_length n"
proof (induction n rule: bit_length.induct)
  case (1 n)
  show ?case
  proof (cases "n = 0")
    case True
    then show ?thesis by (simp add: bit_length.simps)
  next
    case False
    with 1 have "n div 2 < 2 ^ bit_length (n div 2)" by simp
    then have "n < 2 * 2 ^ bit_length (n div 2)" by linarith
    with False show ?thesis by (subst bit_length.simps) simp
  qed
qed

lemma bit_length_lower: "0 < n \<Longrightarrow> 2 ^ (bit_length n - 1) \<le> n"
proof (induction n rule: bit_length.induct)
  case (1 n)
  show ?case
  proof (cases "n div 2 = 0")
    case True
    with 1(2) have "n = 1" by (simp add: div_eq_0_iff)
    then show ?thesis by (simp add: bit_length.simps)
  next
    case False
    with 1 have ih: "2 ^ (bit_length (n div 2) - 1) \<le> n div 2" by simp
    from False have pos: "0 < bit_length (n div 2)" by (subst bit_length.simps) simp
    have "bit_length n = Suc (bit_length (n div 2))"
      using 1(2) by (subst bit_length.simps) simp
    then have "(2::nat) ^ (bit_length n - 1) = 2 * 2 ^ (bit_length (n div 2) - 1)"
      using pos by (cases "bit_length (n div 2)") simp_all
    with ih show ?thesis by linarith
  qed
qed

text \<open>An integer below \<open>2 ^ 53\<close> in magnitude is a double.\<close>

lemma toDouble_exact: "\<bar>n\<bar> < 2 ^ 53 \<Longrightarrow> toDouble n = n"
proof -
  assume "\<bar>n\<bar> < 2 ^ 53"
  then have "nat \<bar>n\<bar> < 2 ^ 53" by (simp add: nat_less_iff)
  then have "bit_length (nat \<bar>n\<bar>) \<le> 53" by (rule bit_length_le)
  then show ?thesis by (simp add: toDouble_def Let_def)
qed

lemma toDouble_nonneg: "0 \<le> n \<Longrightarrow> 0 \<le> toDouble n"
  by (simp add: toDouble_def Let_def sgn_if)

text \<open>A multiple of \<open>2 ^ 10\<close> below \<open>2 ^ 63\<close> in magnitude is a double.\<close>

lemma toDouble_multiple:
  assumes "2 ^ 10 dvd n" and "\<bar>n\<bar> < 2 ^ 63"
  shows "toDouble n = n"
proof -
  define m where "m = nat \<bar>n\<bar>"
  define b where "b = bit_length m"
  have m: "m < 2 ^ 63" using assms(2) by (simp add: m_def nat_less_iff)
  then have b63: "b \<le> 63" unfolding b_def by (rule bit_length_le)
  show ?thesis
  proof (cases "b \<le> 53")
    case True
    then show ?thesis by (simp add: toDouble_def Let_def m_def b_def)
  next
    case False
    define u :: nat where "u = 2 ^ (b - 53)"
    have "b - 53 \<le> 10" using b63 by simp
    then have "u dvd 2 ^ 10" unfolding u_def by (rule le_imp_power_dvd)
    moreover have "2 ^ 10 dvd m"
      using assms(1) unfolding m_def
      by (metis dvd_abs_iff int_dvd_int_iff nat_0_le abs_ge_zero of_nat_numeral of_nat_power)
    ultimately have "u dvd m" by (rule dvd_trans)
    then have r: "m mod u = 0" and q: "m div u * u = m" by simp_all
    have upos: "0 < u" by (simp add: u_def)
    have "toDouble n = sgn n * int (m div u * u)"
      using False r upos
      by (simp add: toDouble_def Let_def m_def [symmetric] b_def [symmetric] u_def [symmetric])
    also have "\<dots> = sgn n * int m" by (simp only: q)
    also have "\<dots> = sgn n * \<bar>n\<bar>" by (simp add: m_def)
    also have "\<dots> = n" by (simp add: sgn_if)
    finally show ?thesis .
  qed
qed

text \<open>Rounding never takes a number of at least \<open>2 ^ k\<close> in magnitude below \<open>2 ^ k\<close>.\<close>

lemma toDouble_lower:
  assumes "2 ^ k \<le> \<bar>n\<bar>" and "53 \<le> k"
  shows "2 ^ k \<le> \<bar>toDouble n\<bar>"
proof -
  define m where "m = nat \<bar>n\<bar>"
  define b where "b = bit_length m"
  have mk: "2 ^ k \<le> m" using assms(1) by (simp add: m_def le_nat_iff)
  have "m < 2 ^ b" unfolding b_def by (rule bit_length_upper)
  with mk have "(2::nat) ^ k < 2 ^ b" by linarith
  then have kb: "k < b" by simp
  with assms(2) have b53: "\<not> b \<le> 53" by simp
  define u :: nat where "u = 2 ^ (b - 53)"
  define q where "q = m div u"
  define q1 where "q1 = (if u < 2 * (m mod u) \<or> (2 * (m mod u) = u \<and> odd q) then q + 1 else q)"
  have mpos: "0 < m"
    using mk by (metis gr0I not_one_le_zero one_le_numeral one_le_power le_zero_eq)
  then have low: "2 ^ (b - 1) \<le> m" unfolding b_def by (rule bit_length_lower)
  have "b - 1 = 52 + (b - 53)" using b53 by simp
  then have "(2::nat) ^ (b - 1) = 2 ^ (52 + (b - 53))" by (rule arg_cong)
  then have split: "(2::nat) ^ (b - 1) = 2 ^ 52 * u"
    unfolding u_def by (simp only: power_add)
  have upos: "0 < u" by (simp add: u_def)
  from low split have "2 ^ 52 * u \<le> m" by simp
  then have "2 ^ 52 \<le> q" unfolding q_def using upos
    by (metis div_le_mono div_mult_self_is_m)
  then have "2 ^ 52 * u \<le> q1 * u" unfolding q1_def by simp
  with split have big: "2 ^ (b - 1) \<le> q1 * u" by simp
  have "(2::nat) ^ k \<le> 2 ^ (b - 1)" using kb by (intro power_increasing) simp_all
  with big have res: "2 ^ k \<le> q1 * u" by linarith
  have n0: "n \<noteq> 0" using mpos by (auto simp: m_def)
  have "toDouble n = sgn n * int (q1 * u)"
    using b53 by (simp add: toDouble_def Let_def m_def [symmetric] b_def [symmetric]
        u_def [symmetric] q_def [symmetric] q1_def)
  then have "\<bar>toDouble n\<bar> = int (q1 * u)" using n0 by (simp add: abs_mult sgn_if)
  with res show ?thesis by (metis of_nat_le_iff of_nat_numeral of_nat_power)
qed

text \<open>
  The restock date of \<open>handleSeasonalProduct\<close>, computed in doubles from a valid current
  date: when it is a valid date it is the exact sum, and when the exact sum is in the range
  of \<open>Date\<close> it is that sum.
\<close>

lemma days_multiple: "2 ^ 10 dvd l * MILLISECONDS_PER_DAY"
proof -
  have "l * MILLISECONDS_PER_DAY = 2 ^ 10 * (l * 84375)"
    by (simp add: MILLISECONDS_PER_DAY_def)
  then show ?thesis by (rule dvdI)
qed

lemma restockDate_valid:
  assumes "\<bar>now\<bar> \<le> 8640000000000000"
    and "TimeClip (toDouble (now + toDouble (l * MILLISECONDS_PER_DAY))) = Some r"
  shows "r = now + l * MILLISECONDS_PER_DAY"
proof -
  define P where "P = l * MILLISECONDS_PER_DAY"
  from assms(2) have r: "r = toDouble (now + toDouble P)" and v: "\<bar>r\<bar> \<le> 8640000000000000"
    by (auto simp add: TimeClip_def P_def split: if_splits)
  have small: "\<bar>x\<bar> < 2 ^ 53" if "\<bar>toDouble x\<bar> \<le> 8640000000000000" for x
  proof (rule ccontr)
    assume "\<not> \<bar>x\<bar> < 2 ^ 53"
    then have "2 ^ 53 \<le> \<bar>x\<bar>" by simp
    then have "2 ^ 53 \<le> \<bar>toDouble x\<bar>" by (rule toDouble_lower) simp
    with that show False by simp
  qed
  have P63: "\<bar>P\<bar> < 2 ^ 63"
  proof (rule ccontr)
    assume "\<not> \<bar>P\<bar> < 2 ^ 63"
    then have "2 ^ 63 \<le> \<bar>P\<bar>" by simp
    then have "2 ^ 63 \<le> \<bar>toDouble P\<bar>" by (rule toDouble_lower) simp
    with assms(1) have "2 ^ 53 \<le> \<bar>now + toDouble P\<bar>" by simp
    then have "2 ^ 53 \<le> \<bar>toDouble (now + toDouble P)\<bar>" by (rule toDouble_lower) simp
    with r v show False by simp
  qed
  have "toDouble P = P"
    using days_multiple [of l] P63 unfolding P_def by (rule toDouble_multiple)
  with r have r2: "r = toDouble (now + P)" by simp
  with v have "\<bar>now + P\<bar> < 2 ^ 53" by (intro small) simp
  then have "toDouble (now + P) = now + P" by (rule toDouble_exact)
  with r2 show ?thesis by (simp add: P_def)
qed

lemma restockDate_exact:
  assumes "\<bar>now\<bar> \<le> 8640000000000000"
    and "\<bar>now + l * MILLISECONDS_PER_DAY\<bar> \<le> 8640000000000000"
  shows "TimeClip (toDouble (now + toDouble (l * MILLISECONDS_PER_DAY)))
         = Some (now + l * MILLISECONDS_PER_DAY)"
proof -
  define P where "P = l * MILLISECONDS_PER_DAY"
  from assms have "\<bar>P\<bar> < 2 ^ 63" unfolding P_def by simp
  with days_multiple [of l] have "toDouble P = P" unfolding P_def by (rule toDouble_multiple)
  moreover from assms(2) have "\<bar>now + P\<bar> < 2 ^ 53" unfolding P_def by simp
  then have "toDouble (now + P) = now + P" by (rule toDouble_exact)
  ultimately show ?thesis using assms(2) by (simp add: TimeClip_def P_def)
qed

lemma getTime_range: "\<bar>getTime t\<bar> \<le> 8640000000000000"
  using getTime [of t] by simp

text \<open>The restock test of the handler, in exact arithmetic.\<close>

lemma restock_test:
  "(case TimeClip (toDouble (getTime t + toDouble (l * MILLISECONDS_PER_DAY))) of
      None \<Rightarrow> False
    | Some r \<Rightarrow> e < r)
   \<longleftrightarrow> \<bar>getTime t + l * MILLISECONDS_PER_DAY\<bar> \<le> 8640000000000000
       \<and> e < getTime t + l * MILLISECONDS_PER_DAY"
proof (cases "\<bar>getTime t + l * MILLISECONDS_PER_DAY\<bar> \<le> 8640000000000000")
  case True
  with restockDate_exact [OF getTime_range [of t], of l] show ?thesis by simp
next
  case False
  have "TimeClip (toDouble (getTime t + toDouble (l * MILLISECONDS_PER_DAY))) = None"
  proof (cases "TimeClip (toDouble (getTime t + toDouble (l * MILLISECONDS_PER_DAY)))")
    case None
    then show ?thesis .
  next
    case (Some r)
    from restockDate_valid [OF getTime_range [of t] Some]
    have "r = getTime t + l * MILLISECONDS_PER_DAY" .
    moreover from Some have "\<bar>r\<bar> \<le> 8640000000000000"
      by (auto simp add: TimeClip_def split: if_splits)
    ultimately show ?thesis using False by simp
  qed
  with False show ?thesis by simp
qed

text \<open>\<open>handleSeasonalProduct\<close> with its restock test in exact arithmetic.\<close>

lemma handleSeasonalProduct_exact:
  "handleSeasonalProduct p w =
     (let now = getTime (clock w (ticks w));
          w1 = w\<lparr>ticks := Suc (ticks w)\<rparr>;
          restock = now + leadTime p * MILLISECONDS_PER_DAY
      in if \<bar>restock\<bar> \<le> 8640000000000000 \<and> ToNumber (seasonEndDate p) < restock
         then setOutOfStock p (emit (SendOutOfStockNotification (name p)) w1)
         else if now < ToNumber (seasonStartDate p)
         then (p, updateProduct p (emit (SendOutOfStockNotification (name p)) w1))
         else notifyDelay (leadTime p) p w1)"
  by (simp add: handleSeasonalProduct_def new_Date_def restock_test Let_def)

lemmas service_defs = processProduct_def productHandlers_def call_handler_def
  processNormalProduct_def processSeasonalProduct_def processExpirableProduct_def
  handleSeasonalProduct_exact handleExpiredProduct_def notifyDelay_def
  decrementStock_def setOutOfStock_def updateProduct_def emit_def new_Date_def
  PRODUCT_TYPE_NORMAL_def PRODUCT_TYPE_SEASONAL_def PRODUCT_TYPE_EXPIRABLE_def
  MILLISECONDS_PER_DAY_def ToNumber_def Let_def

subsection \<open>Dispatch, traces and frames of the three handlers\<close>

lemmas type_defs = PRODUCT_TYPE_NORMAL_def PRODUCT_TYPE_SEASONAL_def PRODUCT_TYPE_EXPIRABLE_def

lemma processProduct_NORMAL:
  "type p = PRODUCT_TYPE_NORMAL \<Longrightarrow>
   processProduct p w = (Inr (fst (processNormalProduct p w)), snd (processNormalProduct p w))"
  by (simp add: processProduct_def productHandlers_def call_handler_def type_defs split: prod.splits)

lemma processProduct_SEASONAL:
  "type p = PRODUCT_TYPE_SEASONAL \<Longrightarrow>
   processProduct p w = (Inr (fst (processSeasonalProduct p w)), snd (processSeasonalProduct p w))"
  by (simp add: processProduct_def productHandlers_def call_handler_def type_defs split: prod.splits)

lemma processProduct_EXPIRABLE:
  "type p = PRODUCT_TYPE_EXPIRABLE \<Longrightarrow>
   processProduct p w = (Inr (fst (processExpirableProduct p w)), snd (processExpirableProduct p w))"
  by (simp add: processProduct_def productHandlers_def call_handler_def type_defs split: prod.splits)

lemma trace_processNormalProduct:
  "one_write_one_notification w (snd (processNormalProduct p w))"
  by (simp add: processNormalProduct_def notifyDelay_def decrementStock_def updateProduct_def
      emit_def Let_def is_write_def is_notification_def one_write_one_notification_def new_events_def)

lemma trace_processSeasonalProduct:
  "one_write_one_notification w (snd (processSeasonalProduct p w))"
  by (simp add: processSeasonalProduct_def handleSeasonalProduct_exact new_Date_def
      notifyDelay_def decrementStock_def setOutOfStock_def updateProduct_def
      emit_def Let_def is_write_def is_notification_def one_write_one_notification_def new_events_def)

lemma trace_processExpirableProduct:
  "one_write_one_notification w (snd (processExpirableProduct p w))"
  by (simp add: processExpirableProduct_def handleExpiredProduct_def new_Date_def
      decrementStock_def setOutOfStock_def updateProduct_def
      emit_def Let_def is_write_def is_notification_def one_write_one_notification_def new_events_def)

lemma frame_processNormalProduct: "frame p w (processNormalProduct p w)"
  by (simp add: frame_def processNormalProduct_def notifyDelay_def decrementStock_def
      updateProduct_def emit_def Let_def split: option.splits)

lemma frame_processSeasonalProduct: "frame p w (processSeasonalProduct p w)"
  by (simp add: frame_def processSeasonalProduct_def handleSeasonalProduct_exact new_Date_def
      notifyDelay_def decrementStock_def setOutOfStock_def updateProduct_def emit_def Let_def
      split: option.splits)

lemma frame_processExpirableProduct: "frame p w (processExpirableProduct p w)"
  by (simp add: frame_def processExpirableProduct_def handleExpiredProduct_def new_Date_def
      decrementStock_def setOutOfStock_def updateProduct_def emit_def Let_def
      split: option.splits)

lemma frame_processProduct:
  assumes "known_type (type p)"
  shows "\<exists>p1. fst (processProduct p w) = Inr p1 \<and> frame p w (p1, snd (processProduct p w))"
  using assms frame_processNormalProduct [of p w] frame_processSeasonalProduct [of p w]
    frame_processExpirableProduct [of p w]
  unfolding known_type_def
  by (auto simp add: processProduct_NORMAL processProduct_SEASONAL processProduct_EXPIRABLE)

lemma processProduct_unknown_type:
  assumes "\<not> known_type (type p)"
  shows "snd (processProduct p w) = w
    \<and> (fst (processProduct p w) = Inr p \<or> (\<exists>e. fst (processProduct p w) = Inl e))"
  using assms
  by (simp add: processProduct_def productHandlers_def call_inherited_def known_type_def)

text \<open>\<open>available -= 1\<close> is exact on a stock from 1 to \<open>2 ^ 53\<close>.\<close>

lemma decrement_exact:
  "0 < a \<Longrightarrow> a \<le> 9007199254740992 \<Longrightarrow> toDouble (a - 1) = a - 1"
  by (rule toDouble_exact) simp

subsection \<open>SEASONAL products\<close>

text \<open>
  The first reading of the clock, \<open>clock w (ticks w)\<close>, is the one
  \<open>processSeasonalProduct\<close> takes; the second, \<open>clock w (Suc (ticks w))\<close>, is the one
  \<open>handleSeasonalProduct\<close> takes.
\<close>

text \<open>
  Claim C1, as amended. For every SEASONAL product that is not both in season and in stock
  when \<open>processSeasonalProduct\<close> reads the clock, and for which the current date plus
  \<open>leadTime\<close> days is after \<open>seasonEndDate\<close> and still in the range of \<open>Date\<close> when
  \<open>handleSeasonalProduct\<close> reads it, applying the engine sends an out-of-stock
  notification with the product's name, then sets \<open>available\<close> to 0 and writes the record.
  A product in season with \<open>available > 0\<close> takes the decrement path instead, whatever its
  lead time.
\<close>

theorem seasonal_restock_after_season_end:
  assumes "type p = PRODUCT_TYPE_SEASONAL"
    and "\<not> (ToNumber (seasonStartDate p) < getTime (clock w (ticks w))
            \<and> getTime (clock w (ticks w)) < ToNumber (seasonEndDate p) \<and> 0 < available p)"
    and "ToNumber (seasonEndDate p)
           < getTime (clock w (Suc (ticks w))) + leadTime p * MILLISECONDS_PER_DAY"
    and "\<bar>getTime (clock w (Suc (ticks w))) + leadTime p * MILLISECONDS_PER_DAY\<bar>
           \<le> 8640000000000000"
  shows "fst (processProduct p w) = Inr (p\<lparr>available := 0\<rparr>)
    \<and> trace (snd (processProduct p w)) =
        trace w @ [SendOutOfStockNotification (name p), UpdateProduct (p\<lparr>available := 0\<rparr>)]
    \<and> products (snd (processProduct p w)) =
        (if products w (id' p) = None then products w
         else (products w)(id' p \<mapsto> p\<lparr>available := 0\<rparr>))"
  using assms
  by (auto simp add: service_defs split: prod.splits option.splits)

theorem seasonal_restock_after_season_end_witness:
  "type pumpkin = PRODUCT_TYPE_SEASONAL
   \<and> \<not> (ToNumber (seasonStartDate pumpkin) < NOW
         \<and> NOW < ToNumber (seasonEndDate pumpkin) \<and> 0 < available pumpkin)
   \<and> ToNumber (seasonEndDate pumpkin) < NOW + 1 + leadTime pumpkin * MILLISECONDS_PER_DAY
   \<and> \<bar>NOW + 1 + leadTime pumpkin * MILLISECONDS_PER_DAY\<bar> \<le> 8640000000000000
   \<and> available pumpkin = 10
   \<and> fst (processProduct pumpkin (database_with pumpkin)) = Inr (pumpkin\<lparr>available := 0\<rparr>)
   \<and> trace (snd (processProduct pumpkin (database_with pumpkin))) =
       [SendOutOfStockNotification ''Pumpkin'', UpdateProduct (pumpkin\<lparr>available := 0\<rparr>)]
   \<and> products (snd (processProduct pumpkin (database_with pumpkin))) =
       [1 \<mapsto> pumpkin\<lparr>available := 0\<rparr>]"
  using seasonal_restock_after_season_end [of pumpkin "database_with pumpkin"]
  by (simp add: pumpkin_def fixture_defs)

theorem seasonal_in_season_in_stock_counterexample:
  "type late_melon = PRODUCT_TYPE_SEASONAL
   \<and> ToNumber (seasonEndDate late_melon) < NOW + leadTime late_melon * MILLISECONDS_PER_DAY
   \<and> getTime (clock (database_with late_melon) 0) = NOW
   \<and> fst (processProduct late_melon (database_with late_melon)) =
       Inr (late_melon\<lparr>available := 4\<rparr>)
   \<and> trace (snd (processProduct late_melon (database_with late_melon))) =
       [UpdateProduct (late_melon\<lparr>available := 4\<rparr>)]
   \<and> SendOutOfStockNotification (name late_melon)
       \<notin> set (trace (snd (processProduct late_melon (database_with late_melon))))"
  by (simp add: service_defs toDouble_exact late_melon_def fixture_defs)

text \<open>
  The in-season decrement path, and what the handler does with a restock date beyond the
  range of \<open>Date\<close>: the restock test is false, so a season that has started leads to the
  delay notification.
\<close>

lemma seasonal_in_season_in_stock:
  assumes "type p = PRODUCT_TYPE_SEASONAL"
    and "ToNumber (seasonStartDate p) < getTime (clock w (ticks w))"
    and "getTime (clock w (ticks w)) < ToNumber (seasonEndDate p)"
    and "0 < available p"
  shows "fst (processProduct p w) = Inr (p\<lparr>available := toDouble (available p - 1)\<rparr>)
    \<and> trace (snd (processProduct p w)) =
        trace w @ [UpdateProduct (p\<lparr>available := toDouble (available p - 1)\<rparr>)]"
  using assms
  by (simp add: service_defs split: prod.splits)

lemma seasonal_restock_date_invalid:
  "ToNumber (seasonEndDate strawberries) < NOW + 1 + 100000000 * MILLISECONDS_PER_DAY
   \<and> \<not> \<bar>NOW + 1 + 100000000 * MILLISECONDS_PER_DAY\<bar> \<le> 8640000000000000
   \<and> fst (processProduct (strawberries\<lparr>leadTime := 100000000\<rparr>)
            (database_with strawberries)) = Inr (strawberries\<lparr>leadTime := 100000000\<rparr>)
   \<and> trace (snd (processProduct (strawberries\<lparr>leadTime := 100000000\<rparr>)
                   (database_with strawberries))) =
       [UpdateProduct (strawberries\<lparr>leadTime := 100000000\<rparr>),
        SendDelayNotification 100000000 ''Strawberries'']"
  by (simp add: service_defs strawberries_def fixture_defs)




subsection \<open>EXPIRABLE products\<close>

text \<open>
  Claim C3, as amended. For every EXPIRABLE product: if \<open>available\<close> is positive and at
  most \<open>2 ^ 53\<close>, and \<open>expiryDate\<close> is strictly after the current date, applying the engine
  decreases \<open>available\<close> by exactly 1, writes the record and sends no notification; if
  \<open>available\<close> is not positive or \<open>expiryDate\<close> is not after the current date, it sends
  an expiration notification with the product's name and \<open>expiryDate\<close>, then sets
  \<open>available\<close> to exactly 0 and writes the record. The current date is the first reading
  of the clock; \<open>handleExpiredProduct\<close> reads it again, and the second part holds when that
  reading is not earlier than the first. In both parts the row of the product, if there is
  one, holds the returned object afterwards, and no other row changes.
\<close>

theorem expirable_product:
  assumes "type p = PRODUCT_TYPE_EXPIRABLE"
  shows "(0 < available p \<and> available p \<le> 9007199254740992
          \<and> getTime (clock w (ticks w)) < ToNumber (expiryDate p) \<longrightarrow>
            fst (processProduct p w) = Inr (p\<lparr>available := available p - 1\<rparr>)
          \<and> trace (snd (processProduct p w)) =
              trace w @ [UpdateProduct (p\<lparr>available := available p - 1\<rparr>)]
          \<and> products (snd (processProduct p w)) =
              (if products w (id' p) = None then products w
               else (products w)(id' p \<mapsto> p\<lparr>available := available p - 1\<rparr>)))
       \<and> (\<not> (0 < available p \<and> getTime (clock w (ticks w)) < ToNumber (expiryDate p))
          \<and> getTime (clock w (ticks w)) \<le> getTime (clock w (Suc (ticks w))) \<longrightarrow>
            fst (processProduct p w) = Inr (p\<lparr>available := 0\<rparr>)
          \<and> trace (snd (processProduct p w)) =
              trace w @ [SendExpirationNotification (name p) (expiryDate p),
                         UpdateProduct (p\<lparr>available := 0\<rparr>)]
          \<and> products (snd (processProduct p w)) =
              (if products w (id' p) = None then products w
               else (products w)(id' p \<mapsto> p\<lparr>available := 0\<rparr>)))"
  using assms
  by (auto simp add: service_defs decrement_exact split: prod.splits option.splits)

theorem expirable_product_witness:
  "type butter = PRODUCT_TYPE_EXPIRABLE \<and> type milk = PRODUCT_TYPE_EXPIRABLE
   \<and> 0 < available butter \<and> available butter \<le> 9007199254740992
   \<and> NOW < ToNumber (expiryDate butter)
   \<and> fst (processProduct butter (database_with butter)) = Inr (butter\<lparr>available := 29\<rparr>)
   \<and> trace (snd (processProduct butter (database_with butter))) =
       [UpdateProduct (butter\<lparr>available := 29\<rparr>)]
   \<and> products (snd (processProduct butter (database_with butter))) =
       [1 \<mapsto> butter\<lparr>available := 29\<rparr>]
   \<and> \<not> (0 < available milk \<and> NOW < ToNumber (expiryDate milk))
   \<and> NOW \<le> NOW + 1
   \<and> fst (processProduct milk (database_with milk)) = Inr (milk\<lparr>available := 0\<rparr>)
   \<and> trace (snd (processProduct milk (database_with milk))) =
       [SendExpirationNotification ''Milk'' (expiryDate milk), UpdateProduct (milk\<lparr>available := 0\<rparr>)]
   \<and> products (snd (processProduct milk (database_with milk))) =
       [1 \<mapsto> milk\<lparr>available := 0\<rparr>]"
  using expirable_product [of butter "database_with butter"]
    expirable_product [of milk "database_with milk"]
  by (simp add: butter_def milk_def fixture_defs)

theorem expirable_large_stock_counterexample:
  "type hoard = PRODUCT_TYPE_EXPIRABLE
   \<and> 0 < available hoard
   \<and> getTime (clock (database_with hoard) 0) < ToNumber (expiryDate hoard)
   \<and> available hoard = 10000000000000000
   \<and> fst (processProduct hoard (database_with hoard)) = Inr hoard
   \<and> fst (processProduct hoard (database_with hoard))
       \<noteq> Inr (hoard\<lparr>available := available hoard - 1\<rparr>)
   \<and> products (snd (processProduct hoard (database_with hoard))) 1 = Some hoard"
  by (simp add: service_defs number_defs hoard_def fixture_defs)

subsection \<open>NORMAL products\<close>

text \<open>
  Claim C4. For every NORMAL product with \<open>available = 0\<close> and \<open>leadTime > 0\<close>, applying
  the engine writes the record and then sends exactly one delay notification, carrying that
  \<open>leadTime\<close> and the product's name; the product, and so its \<open>available\<close> of 0, is
  unchanged. The write comes before the notification in the trace.
\<close>

theorem normal_out_of_stock_delay:
  assumes "type p = PRODUCT_TYPE_NORMAL"
    and "available p = 0"
    and "0 < leadTime p"
  shows "fst (processProduct p w) = Inr p
    \<and> trace (snd (processProduct p w)) =
        trace w @ [UpdateProduct p, SendDelayNotification (leadTime p) (name p)]
    \<and> products (snd (processProduct p w)) (id' p) =
        (if products w (id' p) = None then None else Some p)"
  using assms
  by (auto simp add: service_defs split: prod.splits option.splits)

theorem normal_out_of_stock_delay_witness:
  "type usb_dongle = PRODUCT_TYPE_NORMAL \<and> available usb_dongle = 0 \<and> 0 < leadTime usb_dongle
   \<and> fst (processProduct usb_dongle (database_with usb_dongle)) = Inr usb_dongle
   \<and> trace (snd (processProduct usb_dongle (database_with usb_dongle))) =
       [UpdateProduct usb_dongle, SendDelayNotification 10 ''USB Dongle'']
   \<and> products (snd (processProduct usb_dongle (database_with usb_dongle))) 1 = Some usb_dongle"
  using normal_out_of_stock_delay [of usb_dongle "database_with usb_dongle"]
  by (simp add: usb_dongle_def fixture_defs)

subsection \<open>Every known type\<close>

text \<open>
  Claim C5. For every product of a known type, one application of the engine appends to
  the trace at most one database write (every repository operation issues exactly one
  \<open>UPDATE\<close>) and at most one notification.
\<close>

theorem at_most_one_write_and_one_notification:
  assumes "known_type (type p)"
  shows "trace (snd (processProduct p w)) = trace w @ new_events w (snd (processProduct p w))
    \<and> length (filter is_write (new_events w (snd (processProduct p w)))) \<le> 1
    \<and> length (filter is_notification (new_events w (snd (processProduct p w)))) \<le> 1"
  using assms trace_processNormalProduct [of w p] trace_processSeasonalProduct [of w p]
    trace_processExpirableProduct [of w p]
  unfolding known_type_def one_write_one_notification_def
  by (auto simp add: processProduct_NORMAL processProduct_SEASONAL processProduct_EXPIRABLE)

theorem at_most_one_write_and_one_notification_witness:
  "known_type (type usb_dongle)
   \<and> trace (snd (processProduct usb_dongle (database_with usb_dongle))) =
       trace (database_with usb_dongle) @ [UpdateProduct usb_dongle, SendDelayNotification 10 ''USB Dongle'']
   \<and> length (filter is_write (new_events (database_with usb_dongle)
         (snd (processProduct usb_dongle (database_with usb_dongle))))) \<le> 1
   \<and> length (filter is_notification (new_events (database_with usb_dongle)
         (snd (processProduct usb_dongle (database_with usb_dongle))))) \<le> 1"
  using at_most_one_write_and_one_notification [of usb_dongle "database_with usb_dongle"]
  by (simp add: service_defs known_type_def new_events_def usb_dongle_def fixture_defs)

text \<open>
  Claim C6. For every product with \<open>available \<ge> 0\<close>, the product the engine leaves has
  \<open>available \<ge> 0\<close>: \<open>available\<close> is unchanged, or set to 0, or the result of
  \<open>available -= 1\<close> on a value that was positive; and the \<open>products\<close> table is unchanged or
  holds that product in the row of its id. The second conjunct holds whatever the sign of
  \<open>available\<close>.
\<close>

theorem available_never_negative:
  assumes "0 \<le> available p"
    and "fst (processProduct p w) = Inr p1"
  shows "0 \<le> available p1
    \<and> (available p1 = available p \<or> available p1 = 0
        \<or> (0 < available p \<and> available p1 = toDouble (available p - 1)))
    \<and> (products (snd (processProduct p w)) = products w
        \<or> products (snd (processProduct p w)) = (products w)(id' p \<mapsto> p1))"
proof (cases "known_type (type p)")
  case True
  with frame_processProduct [of p w] assms(2)
  have f: "frame p w (p1, snd (processProduct p w))" by auto
  have "0 \<le> toDouble (available p - 1)" if "0 < available p"
    using that by (intro toDouble_nonneg) simp
  with f assms(1) show ?thesis
    by (auto simp add: frame_def split: option.splits)
next
  case False
  with processProduct_unknown_type [of p w] assms show ?thesis by auto
qed

theorem available_never_negative_witness:
  "0 \<le> available usb_cable
   \<and> fst (processProduct usb_cable (database_with usb_cable)) = Inr (usb_cable\<lparr>available := 9\<rparr>)
   \<and> 0 \<le> available (usb_cable\<lparr>available := 9\<rparr>)
   \<and> 0 < available usb_cable
   \<and> available (usb_cable\<lparr>available := 9\<rparr>) = available usb_cable - 1
   \<and> products (snd (processProduct usb_cable (database_with usb_cable))) =
       (products (database_with usb_cable))(id' usb_cable \<mapsto> usb_cable\<lparr>available := 9\<rparr>)"
  using available_never_negative [of usb_cable "database_with usb_cable" "usb_cable\<lparr>available := 9\<rparr>"]
  by (simp add: service_defs toDouble_exact usb_cable_def fixture_defs)

text \<open>
  Claim C10, as amended. For every product of a known type, the object the engine leaves
  is its argument with at most \<open>available\<close> changed (\<open>id\<close>, \<open>name\<close>, \<open>type\<close>,
  \<open>leadTime\<close> and the three dates keep their values), and the new \<open>available\<close> is the old
  one, or 0, or the result of \<open>available -= 1\<close> on a positive value, which is the old one
  minus 1 when the stock is at most \<open>2 ^ 53\<close>. When the stored row is the object processed,
  as it is when the order service has just loaded it, the table after the call differs from
  the table before in that row's \<open>available\<close> at most.
\<close>

theorem only_available_changes:
  assumes "known_type (type p)"
  shows "\<exists>a. fst (processProduct p w) = Inr (p\<lparr>available := a\<rparr>)
    \<and> (a = available p \<or> a = 0 \<or> (0 < available p \<and> a = toDouble (available p - 1)))
    \<and> (available p \<le> 9007199254740992 \<longrightarrow>
         a = available p \<or> a = available p - 1 \<or> a = 0)
    \<and> (products w (id' p) = Some p \<longrightarrow>
         products (snd (processProduct p w)) = (products w)(id' p \<mapsto> p\<lparr>available := a\<rparr>))"
proof -
  from frame_processProduct [OF assms, of w] obtain p1 where
    r: "fst (processProduct p w) = Inr p1" and f: "frame p w (p1, snd (processProduct p w))"
    by blast
  from f have "p1 = p\<lparr>available := available p1\<rparr>"
    by (simp add: frame_def)
  moreover from f have step: "available p1 = available p \<or> available p1 = 0
      \<or> (0 < available p \<and> available p1 = toDouble (available p - 1))"
    by (auto simp add: frame_def)
  moreover from step have "available p \<le> 9007199254740992 \<longrightarrow>
      available p1 = available p \<or> available p1 = available p - 1 \<or> available p1 = 0"
    by (auto simp add: decrement_exact)
  moreover from f have "products w (id' p) = Some p \<longrightarrow>
      products (snd (processProduct p w)) = (products w)(id' p \<mapsto> p1)"
    by (auto simp add: frame_def map_upd_triv)
  ultimately show ?thesis using r by metis
qed

theorem only_available_changes_witness:
  "known_type (type usb_cable)
   \<and> fst (processProduct usb_cable (database_with usb_cable)) = Inr (usb_cable\<lparr>available := 9\<rparr>)
   \<and> available usb_cable \<le> 9007199254740992
   \<and> available usb_cable - 1 = 9
   \<and> products (database_with usb_cable) (id' usb_cable) = Some usb_cable
   \<and> products (snd (processProduct usb_cable (database_with usb_cable))) =
       (products (database_with usb_cable))(id' usb_cable \<mapsto> usb_cable\<lparr>available := 9\<rparr>)"
  using only_available_changes [of usb_cable "database_with usb_cable"]
  by (simp add: service_defs toDouble_exact known_type_def usb_cable_def fixture_defs)

theorem only_available_changes_counterexample:
  "known_type (type bulk)
   \<and> available bulk = 9007199254740994
   \<and> fst (processProduct bulk (database_with bulk)) = Inr (bulk\<lparr>available := 9007199254740992\<rparr>)
   \<and> 9007199254740992 \<noteq> available bulk
   \<and> 9007199254740992 \<noteq> available bulk - 1
   \<and> (9007199254740992 :: int) \<noteq> 0"
  by (simp add: service_defs number_defs known_type_def bulk_def fixture_defs)

subsection \<open>Unknown types\<close>

text \<open>
  The guard of \<open>processProduct\<close> throws exactly for the keys that are neither a known type
  nor a member of \<open>Object.prototype\<close>, and a known type never fails.
\<close>

lemma processProduct_NoHandler_iff:
  "fst (processProduct p w) = Inl (NoHandler (type p))
   \<longleftrightarrow> \<not> known_type (type p) \<and> type p \<notin> set Object_prototype"
  by (auto simp add: processProduct_def productHandlers_def call_inherited_def known_type_def
      split: prod.splits)

lemma processProduct_known_type_succeeds:
  "known_type (type p) \<Longrightarrow> \<exists>p1. fst (processProduct p w) = Inr p1"
  using frame_processProduct [of p w] by blast

text \<open>
  Claim C7 says that applying the engine fails with the unsupported-type error if and only
  if the type is not one of NORMAL, SEASONAL, EXPIRABLE. The code does not do so: the
  product \<open>mistyped\<close> has the type \<open>toString\<close>, which is none of the three, and processing
  it completes without an error and without any effect, because the handler table answers
  with the method it inherits under that name.
\<close>

theorem processProduct_inherited_key_no_error:
  "type mistyped \<noteq> PRODUCT_TYPE_NORMAL \<and> type mistyped \<noteq> PRODUCT_TYPE_SEASONAL
   \<and> type mistyped \<noteq> PRODUCT_TYPE_EXPIRABLE
   \<and> processProduct mistyped (database_with mistyped) = (Inr mistyped, database_with mistyped)"
  by (simp add: processProduct_def productHandlers_def call_inherited_def Object_prototype_def
      mistyped_def fixture_defs)

section \<open>Order processing\<close>

text \<open>
  Claim C8. For every order identifier with no row in \<open>orders\<close>, \<open>processOrder\<close> fails
  with the order-not-found error and leaves the world as it found it: no write, no
  notification, no reading of the clock.
\<close>

theorem processOrder_not_found:
  assumes "orderId \<notin> set (orders w)"
  shows "processOrder orderId w = (Inl (OrderNotFound orderId), w)"
  using assms by (simp add: processOrder_def findOrderWithProducts_def)

theorem processOrder_not_found_witness:
  "999 \<notin> set (orders (database_with usb_cable))
   \<and> processOrder 999 (database_with usb_cable) = (Inl (OrderNotFound 999), database_with usb_cable)"
  using processOrder_not_found [of 999 "database_with usb_cable"]
  by (simp add: database_with_def)

text \<open>
  Claim C9. For every order that exists and has no association row, \<open>processOrder\<close>
  succeeds, returns the order's identifier and leaves the world as it found it.
\<close>

theorem processOrder_no_line_items:
  assumes "orderId \<in> set (orders w)"
    and "orderId \<notin> fst ` set (ordersToProducts w)"
  shows "processOrder orderId w = (Inr orderId, w)"
proof -
  have "filter (\<lambda>(oid, productId). oid = orderId) (ordersToProducts w) = []"
    using assms(2) by (auto simp add: filter_empty_conv image_iff)
  then show ?thesis
    using assms(1) by (simp add: processOrder_def findOrderWithProducts_def)
qed

theorem processOrder_no_line_items_witness:
  "2 \<in> set (orders (database_with usb_cable))
   \<and> 2 \<notin> fst ` set (ordersToProducts (database_with usb_cable))
   \<and> processOrder 2 (database_with usb_cable) = (Inr 2, database_with usb_cable)"
  using processOrder_no_line_items [of 2 "database_with usb_cable"]
  by (simp add: database_with_def)

end
